theory Spec2Isabelle
  imports Complex_Main
begin

section \<open>Pareto and Rayleigh sampling operators\<close>

text \<open>
  A shallow embedding of \<^verbatim>\<open>src/operator/numpy/random/np_pareto_op.h\<close> and
  \<^verbatim>\<open>src/operator/numpy/random/np_rayleigh_op.h\<close>.

  Conventions of the embedding.
  \<^item> A value of an element type (\<^verbatim>\<open>float\<close>, \<^verbatim>\<open>DType\<close>, \<^verbatim>\<open>IType\<close>, \<^verbatim>\<open>OType\<close>) is a
    \<^typ>\<open>real\<close>, and floating-point arithmetic is exact: there is no rounding, no NaN
    and no infinity. \<^verbatim>\<open>log\<close> is the natural logarithm \<^term>\<open>ln\<close>.
  \<^item> The element type of the parameter tensor may be an integer type. The one
    operation that the kernels carry out in \<^verbatim>\<open>IType\<close>, the product
    \<^verbatim>\<open>aparams[idx] * aparams[idx]\<close> of the Pareto broadcast kernel, is the product of
    that type, with its wrap-around. Every other operation has a floating-point
    operand and is carried out in floating point.
  \<^item> A \<^verbatim>\<open>TBlob\<close> is its shape together with its flat, dense data; a raw pointer
    argument of a kernel is the list of the elements it points to. The theorems are
    about calls whose buffers hold as many elements as their shapes announce.
  \<^item> A kernel launch over \<open>N\<close> elements runs \<^verbatim>\<open>Map\<close> once for every index below
    \<open>N\<close>. Every \<^verbatim>\<open>Map\<close> of these files touches slot \<open>i\<close> of the buffers only (and
    slot 0 of the flag, with one fixed value), so the order of the indices does not
    matter and the launch is a left-to-right loop.
  \<^item> A failed \<^verbatim>\<open>CHECK_GT\<close>/\<^verbatim>\<open>CHECK_GE\<close> raises; the forward functions return the
    error, if any, together with the output blobs as the call leaves them.
\<close>

subsection \<open>Data\<close>

text \<open>
  The element types that \<^verbatim>\<open>MSHADOW_TYPE_SWITCH\<close> dispatches on. The macro and the
  enumeration of the type flags are not among the sources; the parameter tensor
  \<^verbatim>\<open>inputs[0]\<close> may have any of these types, the floating-point as well as the
  integer ones.
\<close>

datatype TypeFlag = kFloat32 | kFloat64 | kFloat16 | kUint8 | kInt32 | kInt8 | kInt64

text \<open>
  The members \<^verbatim>\<open>shape_\<close>, \<^verbatim>\<open>dptr_\<close> and \<^verbatim>\<open>type_flag_\<close> of a \<^verbatim>\<open>TBlob\<close>: the
  dimensions, the elements in row-major order, and the element type. The elements of
  a blob of an integer type are whole numbers.
\<close>

record TBlob =
  shape :: "nat list"
  dptr :: "real list"
  type_flag :: TypeFlag

text \<open>
  The value that a signed integer of \<open>w\<close> bits holds after an operation whose exact
  result is \<open>n\<close>: the result modulo \<open>2\<^sup>w\<close>, in the range from \<open>-2\<^sup>w\<^sup>-\<^sup>1\<close>. (Signed
  overflow is undefined in C++; the compiled multiplication keeps the low bits.)
\<close>

definition wrap_int :: "nat \<Rightarrow> int \<Rightarrow> int" where
  "wrap_int w n = (n + 2 ^ (w - 1)) mod 2 ^ w - 2 ^ (w - 1)"

text \<open>
  The product \<^verbatim>\<open>x * y\<close> of two values of the type \<^verbatim>\<open>IType\<close>, in that type: exact for
  the floating-point types, in 32 bits for \<^verbatim>\<open>int32\<close> and for the 8-bit types (which
  C++ promotes to \<^verbatim>\<open>int\<close>), in 64 bits for \<^verbatim>\<open>int64\<close>.
\<close>

definition IType_mult :: "TypeFlag \<Rightarrow> real \<Rightarrow> real \<Rightarrow> real" where
  "IType_mult t x y =
     (case t of
        kFloat32 \<Rightarrow> x * y
      | kFloat64 \<Rightarrow> x * y
      | kFloat16 \<Rightarrow> x * y
      | kUint8 \<Rightarrow> of_int (wrap_int 32 (\<lfloor>x\<rfloor> * \<lfloor>y\<rfloor>))
      | kInt32 \<Rightarrow> of_int (wrap_int 32 (\<lfloor>x\<rfloor> * \<lfloor>y\<rfloor>))
      | kInt8 \<Rightarrow> of_int (wrap_int 32 (\<lfloor>x\<rfloor> * \<lfloor>y\<rfloor>))
      | kInt64 \<Rightarrow> of_int (wrap_int 64 (\<lfloor>x\<rfloor> * \<lfloor>y\<rfloor>)))"

text \<open>\<^verbatim>\<open>TShape::Size()\<close>: the number of elements of a shape.\<close>

definition Size :: "nat list \<Rightarrow> nat" where
  "Size shp = prod_list shp"

text \<open>
  The parsed attributes. Only the distribution parameter is read by the compute
  functions; \<^verbatim>\<open>size\<close> and \<^verbatim>\<open>ctx\<close> are consumed by shape inference and
  context selection.
\<close>

record NumpyParetoParam =
  a :: "real option"

record NumpyRayleighParam =
  scale :: "real option"

text \<open>
  The part of \<^verbatim>\<open>OpContext\<close> that the forward functions request: the uniform random
  source (the draw it delivers for every position of the tensor it fills) and the
  content of the one-element temporary workspace before the call.
\<close>

record OpContext =
  prnd :: "nat \<Rightarrow> real"
  requested_space :: real

datatype error = ValueError string

subsection \<open>Collaborators that the two files include\<close>

text \<open>
  Modelled from the spec: \<^verbatim>\<open>Kernel<OP, xpu>::Launch(s, N, args...)\<close> of
  \<^verbatim>\<open>mxnet_op.h\<close>, which is not among the sources. "One logical unit of work per
  output/parameter element": \<^verbatim>\<open>OP::Map(i, args...)\<close> for every \<open>i\<close> below \<open>N\<close>.
\<close>

definition Launch :: "(nat \<Rightarrow> 's \<Rightarrow> 's) \<Rightarrow> nat \<Rightarrow> 's \<Rightarrow> 's" where
  "Launch Map N s = fold Map [0..<N] s"

text \<open>
  Modelled from the spec: the kernel \<^verbatim>\<open>set_zero\<close> of \<^verbatim>\<open>mxnet_op.h\<close> ("zero the
  legality flag").
\<close>

definition set_zero :: "nat \<Rightarrow> real list \<Rightarrow> real list" where
  "set_zero i out = out[i := 0]"

text \<open>
  Modelled from the spec: \<^verbatim>\<open>Random::SampleUniform(&t, 0.0, 1.0)\<close> ("fill the noise
  buffer with independent uniform(0,1) draws, one per output element"). The draws are
  those of the random source; the previous content of the tensor is lost.
\<close>

definition SampleUniform :: "(nat \<Rightarrow> real) \<Rightarrow> real list \<Rightarrow> real list" where
  "SampleUniform rnd t = map rnd [0..<length t]"

text \<open>
  Modelled from the spec: \<^verbatim>\<open>unravel\<close> of the broadcast utilities, which is not
  among the sources. "A per-output-element coordinate is unraveled from the linear
  output index against the output shape." Tensors are dense and row-major: the last
  dimension varies fastest, so the coordinate of a dimension is the remainder of what
  the dimensions to its right leave over.
\<close>

fun unravel_aux :: "nat \<Rightarrow> nat list \<Rightarrow> nat \<times> nat list" where
  "unravel_aux idx [] = (idx, [])"
| "unravel_aux idx (d # ds) =
     (case unravel_aux idx ds of (j, coord) \<Rightarrow> (j div d, (j mod d) # coord))"

definition unravel :: "nat \<Rightarrow> nat list \<Rightarrow> nat list" where
  "unravel idx shp = snd (unravel_aux idx shp)"

text \<open>
  Modelled from the spec: \<^verbatim>\<open>dot\<close> of the broadcast utilities, which is not among
  the sources. The coordinate is "dotted with the parameter's stride vector to obtain
  the source parameter index".
\<close>

definition dot :: "nat list \<Rightarrow> nat list \<Rightarrow> nat" where
  "dot coord stride = sum_list (map2 (*) coord stride)"

text \<open>
  Modelled from the spec: \<^verbatim>\<open>calc_stride\<close> of the broadcast utilities, which is not
  among the sources. A stride is the "per-dimension element-count multiplier used to
  map a multi-dimensional coordinate to a linear buffer offset, zero in dimensions
  being broadcast"; a dimension is broadcast when its size is 1.
\<close>

fun calc_stride :: "nat list \<Rightarrow> nat list" where
  "calc_stride [] = []"
| "calc_stride (d # ds) = (if d > 1 then prod_list ds else 0) # calc_stride ds"

text \<open>
  Modelled from the spec: \<^verbatim>\<open>FillShape\<close> of \<^verbatim>\<open>dist_common.h\<close>, which is not among
  the sources: "given left/right input shapes and a candidate output shape, returns a
  canonicalized broadcast shape and a dimensionality". Broadcasting is the
  "NumPy-style alignment of a lower-dimensional tensor against a target shape by
  repeating along dimensions of size 1": an input shape of lower rank is aligned to
  the right and padded with ones on the left, which gives those dimensions stride 0.
  The spec does not say how the shapes are canonicalised further, and the model leaves
  them as they are. The result is the dimensionality and the three new shapes.
\<close>

definition FillShape ::
  "nat list \<Rightarrow> nat list \<Rightarrow> nat list \<Rightarrow> nat \<times> nat list \<times> nat list \<times> nat list" where
  "FillShape lshape rshape oshape =
     (let odim = length oshape
      in (odim,
          replicate (odim - length lshape) 1 @ lshape,
          replicate (odim - length rshape) 1 @ rshape,
          oshape))"

subsection \<open>Kernels of \<^verbatim>\<open>np_pareto_op.h\<close>\<close>

text \<open>
  \<^verbatim>\<open>out[i] = exp(-log(noise[i]) / a) - DType(1);\<close>
  The state of the kernel is the pair of the noise and the output buffer.
\<close>

definition scalar_pareto_kernel ::
  "nat \<Rightarrow> real \<Rightarrow> real list \<times> real list \<Rightarrow> real list \<times> real list" where
  "scalar_pareto_kernel i av = (\<lambda>(noise, out).
     (noise, out[i := exp (- ln (noise ! i) / av) - 1]))"

text \<open>\<^verbatim>\<open>if (a[i] <= 0.0) { flag[0] = -1.0; }\<close>\<close>

definition check_legal_a_kernel :: "nat \<Rightarrow> real list \<Rightarrow> real list \<Rightarrow> real list" where
  "check_legal_a_kernel i as flag = (if as ! i \<le> 0 then flag[0 := - 1] else flag)"

text \<open>
  \<^verbatim>\<open>
  Shape<ndim> coord = unravel(i, oshape);
  auto idx          = static_cast<index_t>(dot(coord, stride));
  noise[i]          = -log(noise[i]);
  out[i]            = exp(noise[i] / aparams[idx]) - IType(1);
  // get grad
  noise[i] = -noise[i] * (out[i] + 1.0) * (1.0 / (aparams[idx] * aparams[idx]));
  \<close>
  The template parameter \<^verbatim>\<open>IType\<close> is the first argument. The quotient
  \<^verbatim>\<open>noise[i] / aparams[idx]\<close> and the difference with \<^verbatim>\<open>IType(1)\<close> have a
  floating-point operand; the product \<^verbatim>\<open>aparams[idx] * aparams[idx]\<close> has two operands
  of the type \<^verbatim>\<open>IType\<close> and is computed in that type, and its result is converted for
  the division \<^verbatim>\<open>1.0 / ...\<close>. Where the product is 0 that quotient is an infinity,
  which is outside the embedding just as \<^verbatim>\<open>log(0)\<close> is.
\<close>

definition pareto_kernel ::
  "TypeFlag \<Rightarrow> nat \<Rightarrow> nat list \<Rightarrow> nat list \<Rightarrow> real list \<Rightarrow> real list \<times> real list
     \<Rightarrow> real list \<times> real list" where
  "pareto_kernel IType i stride oshape aparams = (\<lambda>(noise, out).
     (let coord = unravel i oshape;
          idx = dot coord stride;
          noise1 = noise[i := - ln (noise ! i)];
          out1 = out[i := exp (noise1 ! i / aparams ! idx) - 1];
          noise2 = noise1[i := - (noise1 ! i) * (out1 ! i + 1)
                                 * (1 / IType_mult IType (aparams ! idx) (aparams ! idx))]
      in (noise2, out1)))"

subsection \<open>Kernels of \<^verbatim>\<open>np_rayleigh_op.h\<close>\<close>

text \<open>
  \<^verbatim>\<open>
  threshold[i] = sqrt(-2 * log(threshold[i]));
  out[i]       = scale * threshold[i];
  \<close>
\<close>

definition scalar_rayleigh_kernel ::
  "nat \<Rightarrow> real \<Rightarrow> real list \<times> real list \<Rightarrow> real list \<times> real list" where
  "scalar_rayleigh_kernel i sc = (\<lambda>(threshold, out).
     (let threshold1 = threshold[i := sqrt (- 2 * ln (threshold ! i))];
          out1 = out[i := sc * threshold1 ! i]
      in (threshold1, out1)))"

text \<open>\<^verbatim>\<open>if (scalar[i] < 0.0) { flag[0] = -1.0; }\<close>\<close>

definition check_legal_scale_kernel :: "nat \<Rightarrow> real list \<Rightarrow> real list \<Rightarrow> real list" where
  "check_legal_scale_kernel i scalar flag = (if scalar ! i < 0 then flag[0 := - 1] else flag)"

text \<open>
  \<^verbatim>\<open>
  Shape<ndim> coord = unravel(i, oshape);
  auto idx          = static_cast<index_t>(dot(coord, stride));
  threshold[i]      = sqrt(-2 * log(threshold[i]));
  out[i]            = scales[idx] * threshold[i];
  \<close>
\<close>

definition rayleigh_kernel ::
  "nat \<Rightarrow> nat list \<Rightarrow> nat list \<Rightarrow> real list \<Rightarrow> real list \<times> real list
     \<Rightarrow> real list \<times> real list" where
  "rayleigh_kernel i stride oshape scales = (\<lambda>(threshold, out).
     (let coord = unravel i oshape;
          idx = dot coord stride;
          threshold1 = threshold[i := sqrt (- 2 * ln (threshold ! i))];
          out1 = out[i := scales ! idx * threshold1 ! i]
      in (threshold1, out1)))"

subsection \<open>Forward functions\<close>

text \<open>Writing the data of the \<open>k\<close>-th blob of a vector of blobs.\<close>

definition set_dptr :: "nat \<Rightarrow> real list \<Rightarrow> TBlob list \<Rightarrow> TBlob list" where
  "set_dptr k buf blobs = blobs[k := (blobs ! k)\<lparr>dptr := buf\<rparr>]"

text \<open>
  \<^verbatim>\<open>NumpyParetoForward\<close>. The flag is zeroed, the noise blob \<^verbatim>\<open>outputs[1]\<close> is filled
  with the draws, and then either the scalar is checked on the host and the scalar
  kernel is launched, or the check kernel runs over the parameter tensor
  \<^verbatim>\<open>inputs[0]\<close>, the flag is copied to the host and checked, and the broadcast kernel
  is launched. Both output arguments of \<^verbatim>\<open>FillShape\<close> for the left and the right
  shape are \<^verbatim>\<open>&new_lshape\<close>, and both inputs are \<^verbatim>\<open>inputs[0].shape_\<close>.
  \<^verbatim>\<open>_copy\<close> reads slot 0 of the flag into \<^verbatim>\<open>indicator_host\<close>. The macros
  \<^verbatim>\<open>MSHADOW_TYPE_SWITCH\<close>, \<^verbatim>\<open>MSHADOW_REAL_TYPE_SWITCH\<close> and
  \<^verbatim>\<open>BROADCAST_NDIM_SWITCH\<close> choose the instance of a kernel for the element types and
  the rank. The type of the parameter tensor reaches the broadcast kernel as its first
  argument; the type of the output is a floating-point type; what the macros do for
  a type or a rank without instance is outside the embedding.
\<close>

definition NumpyParetoForward ::
  "NumpyParetoParam \<Rightarrow> OpContext \<Rightarrow> TBlob list \<Rightarrow> TBlob list \<Rightarrow> error option \<times> TBlob list" where
  "NumpyParetoForward param ctx inputs outputs =
     (let workspace = [requested_space ctx];
          indicator_device0 = Launch set_zero 1 workspace;
          uniform_tensor = SampleUniform (prnd ctx) (dptr (outputs ! 1));
          outputs1 = set_dptr 1 uniform_tensor outputs
      in case a param of
           Some av \<Rightarrow>
             if \<not> av > 0 then (Some (ValueError ''expect a > 0''), outputs1)
             else
               (case Launch (\<lambda>i. scalar_pareto_kernel i av) (Size (shape (outputs ! 0)))
                       (uniform_tensor, dptr (outputs ! 0)) of
                  (noise, out) \<Rightarrow> (None, set_dptr 0 out (set_dptr 1 noise outputs1)))
         | None \<Rightarrow>
             (let indicator_device =
                    Launch (\<lambda>i. check_legal_a_kernel i (dptr (inputs ! 0)))
                      (Size (shape (inputs ! 0))) indicator_device0;
                  indicator_host = indicator_device ! 0
              in if \<not> indicator_host \<ge> 0 then (Some (ValueError ''expect a > 0''), outputs1)
                 else
                   (case FillShape (shape (inputs ! 0)) (shape (inputs ! 0))
                           (shape (outputs ! 0)) of
                      (ndim, new_lshape, new_rshape, new_oshape) \<Rightarrow>
                        (let oshape = new_oshape;
                             stride = calc_stride new_lshape
                         in case Launch (\<lambda>i. pareto_kernel (type_flag (inputs ! 0)) i stride
                                              oshape (dptr (inputs ! 0)))
                                   (Size (shape (outputs ! 0)))
                                   (uniform_tensor, dptr (outputs ! 0)) of
                              (noise, out) \<Rightarrow>
                                (None, set_dptr 0 out (set_dptr 1 noise outputs1))))))"

text \<open>\<^verbatim>\<open>NumpyRayleighForward\<close>, of the same structure.\<close>

definition NumpyRayleighForward ::
  "NumpyRayleighParam \<Rightarrow> OpContext \<Rightarrow> TBlob list \<Rightarrow> TBlob list \<Rightarrow> error option \<times> TBlob list" where
  "NumpyRayleighForward param ctx inputs outputs =
     (let workspace = [requested_space ctx];
          indicator_device0 = Launch set_zero 1 workspace;
          uniform_tensor = SampleUniform (prnd ctx) (dptr (outputs ! 1));
          outputs1 = set_dptr 1 uniform_tensor outputs
      in case scale param of
           Some sc \<Rightarrow>
             if \<not> sc \<ge> 0 then (Some (ValueError ''expect scale >= 0''), outputs1)
             else
               (case Launch (\<lambda>i. scalar_rayleigh_kernel i sc) (Size (shape (outputs ! 0)))
                       (uniform_tensor, dptr (outputs ! 0)) of
                  (threshold, out) \<Rightarrow> (None, set_dptr 0 out (set_dptr 1 threshold outputs1)))
         | None \<Rightarrow>
             (let indicator_device =
                    Launch (\<lambda>i. check_legal_scale_kernel i (dptr (inputs ! 0)))
                      (Size (shape (inputs ! 0))) indicator_device0;
                  indicator_host = indicator_device ! 0
              in if \<not> indicator_host \<ge> 0 then (Some (ValueError ''expect scale >= 0''), outputs1)
                 else
                   (case FillShape (shape (inputs ! 0)) (shape (inputs ! 0))
                           (shape (outputs ! 0)) of
                      (ndim, new_lshape, new_rshape, new_oshape) \<Rightarrow>
                        (let oshape = new_oshape;
                             stride = calc_stride new_lshape
                         in case Launch (\<lambda>i. rayleigh_kernel i stride oshape (dptr (inputs ! 0)))
                                   (Size (shape (outputs ! 0)))
                                   (uniform_tensor, dptr (outputs ! 0)) of
                              (threshold, out) \<Rightarrow>
                                (None, set_dptr 0 out (set_dptr 1 threshold outputs1))))))"

subsection \<open>Backward functions\<close>

text \<open>
  \<^verbatim>\<open>ParetoReparamBackward\<close> and \<^verbatim>\<open>RayleighReparamBackward\<close>. The shared reduction
  \<^verbatim>\<open>CommonScalarReparamBackwardImpl\<close> of \<^verbatim>\<open>dist_common.h\<close> is not among the sources
  and is a parameter \<open>impl\<close>: it receives the inputs, the requests, the outputs and
  the two new shapes, and returns the outputs as it leaves them. The functions return
  the output blobs after the call; returning them as they were means that nothing was
  written. The requests are opaque here.
\<close>

definition ParetoReparamBackward ::
  "(TBlob list \<Rightarrow> 'r list \<Rightarrow> TBlob list \<Rightarrow> nat list \<Rightarrow> nat list \<Rightarrow> TBlob list)
     \<Rightarrow> TBlob list \<Rightarrow> 'r list \<Rightarrow> TBlob list \<Rightarrow> TBlob list" where
  "ParetoReparamBackward impl inputs reqs outputs =
     (if Size (shape (inputs ! 0)) = 0 then outputs
      else if length outputs = 0 then outputs
      else if length inputs = 5 then
        (case FillShape (shape (outputs ! 0)) (shape (outputs ! 0)) (shape (inputs ! 0)) of
           (ndim, new_ishape, new_rshape, new_oshape) \<Rightarrow>
             impl inputs reqs outputs new_ishape new_oshape)
      else outputs)"

definition RayleighReparamBackward ::
  "(TBlob list \<Rightarrow> 'r list \<Rightarrow> TBlob list \<Rightarrow> nat list \<Rightarrow> nat list \<Rightarrow> TBlob list)
     \<Rightarrow> TBlob list \<Rightarrow> 'r list \<Rightarrow> TBlob list \<Rightarrow> TBlob list" where
  "RayleighReparamBackward impl inputs req outputs =
     (if Size (shape (inputs ! 0)) = 0 then outputs
      else if length outputs = 0 then outputs
      else if length inputs = 5 then
        (case FillShape (shape (outputs ! 0)) (shape (outputs ! 0)) (shape (inputs ! 0)) of
           (ndim, new_ishape, new_rshape, new_oshape) \<Rightarrow>
             impl inputs req outputs new_ishape new_oshape)
      else outputs)"

subsection \<open>Vocabulary of the statements\<close>

text \<open>
  The output vector of a forward call: the sample blob \<^verbatim>\<open>outputs[0]\<close> and the noise
  blob \<^verbatim>\<open>outputs[1]\<close>, each holding as many elements as the shape of the sample
  blob announces (the noise buffer has the element count of the output).
\<close>

definition outputs_ok :: "TBlob list \<Rightarrow> bool" where
  "outputs_ok outputs \<longleftrightarrow>
     length outputs = 2 \<and>
     length (dptr (outputs ! 0)) = Size (shape (outputs ! 0)) \<and>
     length (dptr (outputs ! 1)) = Size (shape (outputs ! 0))"

text \<open>
  The index \<^verbatim>\<open>idx\<close> that the broadcast kernels compute for the output index \<open>i\<close>
  from the shapes that the forward functions hand to them.
\<close>

definition param_index :: "TBlob list \<Rightarrow> TBlob list \<Rightarrow> nat \<Rightarrow> nat" where
  "param_index inputs outputs i =
     (case FillShape (shape (inputs ! 0)) (shape (inputs ! 0)) (shape (outputs ! 0)) of
        (ndim, new_lshape, new_rshape, new_oshape) \<Rightarrow>
          dot (unravel i new_oshape) (calc_stride new_lshape))"

subsection \<open>Example calls\<close>

text \<open>
  Output vectors with two and with \<open>3 \<times> 4\<close> slots, random sources that always draw
  \<open>1/2\<close> or \<open>1/4\<close>, and parameter tensors: a legal one, one with a zero, one with a
  negative element, a legal one of 32-bit integers whose first element has a square
  above \<open>2\<^sup>3\<^sup>1\<close>, and a column to broadcast along the rows of the \<open>3 \<times> 4\<close> output.
\<close>

definition two_outputs :: "TBlob list" where
  "two_outputs = [\<lparr>shape = [2], dptr = [0, 0], type_flag = kFloat32\<rparr>,
                  \<lparr>shape = [2], dptr = [0, 0], type_flag = kFloat32\<rparr>]"

definition matrix_outputs :: "TBlob list" where
  "matrix_outputs = [\<lparr>shape = [3, 4], dptr = replicate 12 0, type_flag = kFloat32\<rparr>,
                     \<lparr>shape = [3, 4], dptr = replicate 12 0, type_flag = kFloat32\<rparr>]"

definition half_ctx :: OpContext where
  "half_ctx = \<lparr>prnd = (\<lambda>k. 1 / 2), requested_space = 7\<rparr>"

definition quarter_ctx :: OpContext where
  "quarter_ctx = \<lparr>prnd = (\<lambda>k. 1 / 4), requested_space = 7\<rparr>"

definition two_params :: "TBlob list" where
  "two_params = [\<lparr>shape = [2], dptr = [2, 3], type_flag = kFloat32\<rparr>]"

definition zero_params :: "TBlob list" where
  "zero_params = [\<lparr>shape = [2], dptr = [2, 0], type_flag = kFloat32\<rparr>]"

definition bad_params :: "TBlob list" where
  "bad_params = [\<lparr>shape = [2], dptr = [2, - 1], type_flag = kFloat32\<rparr>]"

definition wide_params :: "TBlob list" where
  "wide_params = [\<lparr>shape = [2], dptr = [46341, 3], type_flag = kInt32\<rparr>]"

definition column_params :: "TBlob list" where
  "column_params = [\<lparr>shape = [3, 1], dptr = [1, 2, 3], type_flag = kFloat32\<rparr>]"

text \<open>
  Inputs of a backward call: five blobs without elements and four blobs with two
  elements each; a reduction that would be seen to write, since it returns no blob at
  all.
\<close>

definition empty_grad :: "TBlob list" where
  "empty_grad = replicate 5 \<lparr>shape = [0], dptr = [], type_flag = kFloat32\<rparr>"

definition two_grads :: "TBlob list" where
  "two_grads = replicate 4 \<lparr>shape = [2], dptr = [1, 1], type_flag = kFloat32\<rparr>"

definition erasing_impl ::
  "TBlob list \<Rightarrow> unit list \<Rightarrow> TBlob list \<Rightarrow> nat list \<Rightarrow> nat list \<Rightarrow> TBlob list" where
  "erasing_impl inputs reqs outputs new_ishape new_oshape = []"

section \<open>Launching the kernels\<close>

lemma Launch_0: "Launch Map 0 s = s"
  by (simp add: Launch_def)

lemma Launch_Suc: "Launch Map (Suc N) s = Map N (Launch Map N s)"
  by (simp add: Launch_def)

lemma list_update_map_upt_drop:
  assumes "N < length xs"
  shows "(map f [0..<N] @ drop N xs)[N := v] = map f [0..<N] @ v # drop (Suc N) xs"
proof -
  have "drop N xs = xs ! N # drop (Suc N) xs"
    using assms by (simp add: Cons_nth_drop_Suc)
  then show ?thesis by (simp add: list_update_append)
qed

lemma nth_map_upt_drop:
  assumes "N < length xs"
  shows "(map f [0..<N] @ drop N xs) ! N = xs ! N"
  using assms by (simp add: nth_append)

lemma Launch_set_zero: "Launch set_zero (Suc 0) [w] = [0]"
  by (simp add: Launch_def set_zero_def)

text \<open>The scalar Pareto kernel writes the first \<open>N\<close> output slots and nothing else.\<close>

lemma Launch_scalar_pareto_kernel:
  "N \<le> length out \<Longrightarrow>
   Launch (\<lambda>i. scalar_pareto_kernel i av) N (noise, out) =
     (noise, map (\<lambda>i. exp (- ln (noise ! i) / av) - 1) [0..<N] @ drop N out)"
proof (induction N)
  case 0
  show ?case by (simp add: Launch_0)
next
  case (Suc N)
  then have "N < length out" by simp
  with Suc show ?case
    by (simp add: Launch_Suc scalar_pareto_kernel_def list_update_map_upt_drop)
qed

text \<open>The check kernels leave the flag alone unless some element is illegal.\<close>

lemma Launch_check_legal_a_kernel:
  "Launch (\<lambda>i. check_legal_a_kernel i as) N [f] = [if \<exists>i<N. as ! i \<le> 0 then - 1 else f]"
proof (induction N)
  case 0
  show ?case by (simp add: Launch_0)
next
  case (Suc N)
  then show ?case
    by (auto simp: Launch_Suc check_legal_a_kernel_def less_Suc_eq)
qed

text \<open>
  The broadcast Pareto kernel writes the first \<open>N\<close> slots of both buffers; slot \<open>i\<close>
  of either depends on the draw in slot \<open>i\<close> and on the indexed parameter only.
\<close>

lemma Launch_pareto_kernel:
  "N \<le> length noise \<Longrightarrow> N \<le> length out \<Longrightarrow>
   Launch (\<lambda>i. pareto_kernel IType i stride oshape aparams) N (noise, out) =
     (map (\<lambda>i. - (- ln (noise ! i))
                 * ((exp (- ln (noise ! i) / aparams ! dot (unravel i oshape) stride) - 1) + 1)
                 * (1 / IType_mult IType (aparams ! dot (unravel i oshape) stride)
                          (aparams ! dot (unravel i oshape) stride))) [0..<N] @ drop N noise,
      map (\<lambda>i. exp (- ln (noise ! i) / aparams ! dot (unravel i oshape) stride) - 1) [0..<N]
        @ drop N out)"
proof (induction N)
  case 0
  show ?case by (simp add: Launch_0)
next
  case (Suc N)
  then have "N < length out" "N < length noise" by simp_all
  with Suc show ?case
    by (simp add: Launch_Suc pareto_kernel_def Let_def list_update_map_upt_drop nth_map_upt_drop
        del: upt_Suc) (simp add: list_update_append nth_append)
qed

text \<open>The Rayleigh kernels write the first \<open>N\<close> slots of both buffers.\<close>

lemma Launch_check_legal_scale_kernel:
  "Launch (\<lambda>i. check_legal_scale_kernel i as) N [f] = [if \<exists>i<N. as ! i < 0 then - 1 else f]"
proof (induction N)
  case 0
  show ?case by (simp add: Launch_0)
next
  case (Suc N)
  then show ?case
    by (auto simp: Launch_Suc check_legal_scale_kernel_def less_Suc_eq)
qed

lemma Launch_scalar_rayleigh_kernel:
  "N \<le> length threshold \<Longrightarrow> N \<le> length out \<Longrightarrow>
   Launch (\<lambda>i. scalar_rayleigh_kernel i sc) N (threshold, out) =
     (map (\<lambda>i. sqrt (- 2 * ln (threshold ! i))) [0..<N] @ drop N threshold,
      map (\<lambda>i. sc * sqrt (- 2 * ln (threshold ! i))) [0..<N] @ drop N out)"
proof (induction N)
  case 0
  show ?case by (simp add: Launch_0)
next
  case (Suc N)
  then have "N < length out" "N < length threshold" by simp_all
  with Suc show ?case
    by (simp add: Launch_Suc scalar_rayleigh_kernel_def Let_def list_update_map_upt_drop
        nth_map_upt_drop del: upt_Suc) (simp add: nth_append)
qed

lemma Launch_rayleigh_kernel:
  "N \<le> length threshold \<Longrightarrow> N \<le> length out \<Longrightarrow>
   Launch (\<lambda>i. rayleigh_kernel i stride oshape scales) N (threshold, out) =
     (map (\<lambda>i. sqrt (- 2 * ln (threshold ! i))) [0..<N] @ drop N threshold,
      map (\<lambda>i. scales ! dot (unravel i oshape) stride * sqrt (- 2 * ln (threshold ! i))) [0..<N]
        @ drop N out)"
proof (induction N)
  case 0
  show ?case by (simp add: Launch_0)
next
  case (Suc N)
  then have "N < length out" "N < length threshold" by simp_all
  with Suc show ?case
    by (simp add: Launch_Suc rayleigh_kernel_def Let_def list_update_map_upt_drop
        nth_map_upt_drop del: upt_Suc) (simp add: nth_append)
qed

section \<open>The forward functions in closed form\<close>

lemma set_dptr_pair:
  "set_dptr 0 b [x, y] = [x\<lparr>dptr := b\<rparr>, y]"
  "set_dptr (Suc 0) b [x, y] = [x, y\<lparr>dptr := b\<rparr>]"
  by (simp_all add: set_dptr_def)

lemma outputs_okE:
  assumes "outputs_ok outputs"
  obtains x y where "outputs = [x, y]" "length (dptr x) = Size (shape x)"
    "length (dptr y) = Size (shape x)"
proof -
  from assms have "length outputs = 2" by (simp add: outputs_ok_def)
  then obtain x y where xy: "outputs = [x, y]"
    by (auto simp: length_Suc_conv numeral_2_eq_2)
  with assms that show ?thesis by (simp add: outputs_ok_def)
qed

lemma NumpyParetoForward_scalar_ok:
  assumes "outputs_ok outputs" "a param = Some av" "av > 0"
  shows "NumpyParetoForward param ctx inputs outputs =
    (None, [(outputs ! 0)\<lparr>dptr := map (\<lambda>i. exp (- ln (prnd ctx i) / av) - 1)
                                     [0..<Size (shape (outputs ! 0))]\<rparr>,
            (outputs ! 1)\<lparr>dptr := map (prnd ctx) [0..<Size (shape (outputs ! 0))]\<rparr>])"
proof -
  from assms(1) obtain x y where xy: "outputs = [x, y]" "length (dptr x) = Size (shape x)"
    "length (dptr y) = Size (shape x)" by (rule outputs_okE)
  show ?thesis
    using assms(2,3) xy
    by (simp add: NumpyParetoForward_def Let_def SampleUniform_def
        Launch_scalar_pareto_kernel set_dptr_pair)
qed

lemma NumpyParetoForward_fail:
  assumes "fst (NumpyParetoForward param ctx inputs outputs) \<noteq> None"
  shows "NumpyParetoForward param ctx inputs outputs =
    (Some (ValueError ''expect a > 0''),
     set_dptr 1 (map (prnd ctx) [0..<length (dptr (outputs ! 1))]) outputs)"
  using assms
  by (auto simp: NumpyParetoForward_def Let_def SampleUniform_def
      split: option.splits if_splits prod.splits)

lemma NumpyParetoForward_tensor_fails_iff:
  assumes "a param = None"
  shows "fst (NumpyParetoForward param ctx inputs outputs) \<noteq> None \<longleftrightarrow>
    (\<exists>k<Size (shape (inputs ! 0)). dptr (inputs ! 0) ! k \<le> 0)"
  using assms
  by (auto simp: NumpyParetoForward_def Let_def Launch_set_zero Launch_check_legal_a_kernel
      split: prod.splits)

lemma NumpyParetoForward_tensor_ok:
  assumes "outputs_ok outputs" "a param = None"
    "\<forall>k<Size (shape (inputs ! 0)). dptr (inputs ! 0) ! k > 0"
  shows "NumpyParetoForward param ctx inputs outputs =
    (None,
     [(outputs ! 0)\<lparr>dptr :=
         map (\<lambda>i. exp (- ln (prnd ctx i) / dptr (inputs ! 0) ! param_index inputs outputs i) - 1)
           [0..<Size (shape (outputs ! 0))]\<rparr>,
      (outputs ! 1)\<lparr>dptr :=
         map (\<lambda>i. - (- ln (prnd ctx i))
                 * ((exp (- ln (prnd ctx i) / dptr (inputs ! 0) ! param_index inputs outputs i) - 1) + 1)
                 * (1 / IType_mult (type_flag (inputs ! 0))
                          (dptr (inputs ! 0) ! param_index inputs outputs i)
                          (dptr (inputs ! 0) ! param_index inputs outputs i)))
           [0..<Size (shape (outputs ! 0))]\<rparr>])"
proof -
  from assms(1) obtain x y where xy: "outputs = [x, y]" "length (dptr x) = Size (shape x)"
    "length (dptr y) = Size (shape x)" by (rule outputs_okE)
  have chk: "\<not> (\<exists>k<Size (shape (inputs ! 0)). dptr (inputs ! 0) ! k \<le> 0)"
    using assms(3) by (auto simp: not_le)
  show ?thesis
    using assms(2) xy chk
    by (simp add: NumpyParetoForward_def Let_def SampleUniform_def Launch_set_zero
        Launch_check_legal_a_kernel Launch_pareto_kernel set_dptr_pair param_index_def
        split: prod.splits)
qed

lemma NumpyParetoForward_scalar_fails_iff:
  assumes "a param = Some av"
  shows "fst (NumpyParetoForward param ctx inputs outputs) \<noteq> None \<longleftrightarrow> av \<le> 0"
  using assms
  by (auto simp: NumpyParetoForward_def Let_def split: prod.splits)

lemma NumpyParetoForward_tensor_succeeds:
  assumes "a param = None" "fst (NumpyParetoForward param ctx inputs outputs) = None"
  shows "\<forall>k<Size (shape (inputs ! 0)). dptr (inputs ! 0) ! k > 0"
proof -
  have "\<not> (\<exists>k<Size (shape (inputs ! 0)). dptr (inputs ! 0) ! k \<le> 0)"
    using NumpyParetoForward_tensor_fails_iff [OF assms(1), of ctx inputs outputs] assms(2)
    by simp
  then show ?thesis by (meson not_le)
qed

lemma NumpyRayleighForward_scalar_ok:
  assumes "outputs_ok outputs" "scale param = Some sc" "sc \<ge> 0"
  shows "NumpyRayleighForward param ctx inputs outputs =
    (None, [(outputs ! 0)\<lparr>dptr := map (\<lambda>i. sc * sqrt (- 2 * ln (prnd ctx i)))
                                     [0..<Size (shape (outputs ! 0))]\<rparr>,
            (outputs ! 1)\<lparr>dptr := map (\<lambda>i. sqrt (- 2 * ln (prnd ctx i)))
                                     [0..<Size (shape (outputs ! 0))]\<rparr>])"
proof -
  from assms(1) obtain x y where xy: "outputs = [x, y]" "length (dptr x) = Size (shape x)"
    "length (dptr y) = Size (shape x)" by (rule outputs_okE)
  show ?thesis
    using assms(2,3) xy
    by (simp add: NumpyRayleighForward_def Let_def SampleUniform_def
        Launch_scalar_rayleigh_kernel set_dptr_pair)
qed

lemma NumpyRayleighForward_fail:
  assumes "fst (NumpyRayleighForward param ctx inputs outputs) \<noteq> None"
  shows "NumpyRayleighForward param ctx inputs outputs =
    (Some (ValueError ''expect scale >= 0''),
     set_dptr 1 (map (prnd ctx) [0..<length (dptr (outputs ! 1))]) outputs)"
  using assms
  by (auto simp: NumpyRayleighForward_def Let_def SampleUniform_def
      split: option.splits if_splits prod.splits)

lemma NumpyRayleighForward_scalar_fails_iff:
  assumes "scale param = Some sc"
  shows "fst (NumpyRayleighForward param ctx inputs outputs) \<noteq> None \<longleftrightarrow> sc < 0"
  using assms
  by (auto simp: NumpyRayleighForward_def Let_def split: prod.splits)

lemma NumpyRayleighForward_tensor_fails_iff:
  assumes "scale param = None"
  shows "fst (NumpyRayleighForward param ctx inputs outputs) \<noteq> None \<longleftrightarrow>
    (\<exists>k<Size (shape (inputs ! 0)). dptr (inputs ! 0) ! k < 0)"
  using assms
  by (auto simp: NumpyRayleighForward_def Let_def Launch_set_zero Launch_check_legal_scale_kernel
      split: prod.splits)

lemma NumpyRayleighForward_tensor_succeeds:
  assumes "scale param = None" "fst (NumpyRayleighForward param ctx inputs outputs) = None"
  shows "\<forall>k<Size (shape (inputs ! 0)). dptr (inputs ! 0) ! k \<ge> 0"
proof -
  have "\<not> (\<exists>k<Size (shape (inputs ! 0)). dptr (inputs ! 0) ! k < 0)"
    using NumpyRayleighForward_tensor_fails_iff [OF assms(1), of ctx inputs outputs] assms(2)
    by simp
  then show ?thesis by (meson not_less)
qed

lemma NumpyRayleighForward_tensor_ok:
  assumes "outputs_ok outputs" "scale param = None"
    "\<forall>k<Size (shape (inputs ! 0)). dptr (inputs ! 0) ! k \<ge> 0"
  shows "NumpyRayleighForward param ctx inputs outputs =
    (None,
     [(outputs ! 0)\<lparr>dptr :=
         map (\<lambda>i. dptr (inputs ! 0) ! param_index inputs outputs i * sqrt (- 2 * ln (prnd ctx i)))
           [0..<Size (shape (outputs ! 0))]\<rparr>,
      (outputs ! 1)\<lparr>dptr :=
         map (\<lambda>i. sqrt (- 2 * ln (prnd ctx i))) [0..<Size (shape (outputs ! 0))]\<rparr>])"
proof -
  from assms(1) obtain x y where xy: "outputs = [x, y]" "length (dptr x) = Size (shape x)"
    "length (dptr y) = Size (shape x)" by (rule outputs_okE)
  have chk: "\<not> (\<exists>k<Size (shape (inputs ! 0)). dptr (inputs ! 0) ! k < 0)"
    using assms(3) by (auto simp: not_less)
  show ?thesis
    using assms(2) xy chk
    by (simp add: NumpyRayleighForward_def Let_def SampleUniform_def Launch_set_zero
        Launch_check_legal_scale_kernel Launch_rayleigh_kernel set_dptr_pair param_index_def
        split: prod.splits)
qed

section \<open>Arithmetic of the transforms and of the indices\<close>

lemma pareto_transform_deriv:
  assumes "av \<noteq> 0"
  shows "((\<lambda>x. exp (- ln u / x) - 1) has_real_derivative
           ln u * ((exp (- ln u / av) - 1) + 1) / (av * av)) (at av)"
  using assms by (auto intro!: derivative_eq_intros simp: field_simps power2_eq_square)

lemma pareto_transform_strict_antimono:
  assumes "0 < av" "0 < u1" "u1 < u2"
  shows "exp (- ln u2 / av) - 1 < exp (- ln u1 / av) - (1::real)"
proof -
  from assms have "ln u1 < ln u2" by simp
  then have "- ln u2 / av < - ln u1 / av"
    using assms(1) by (simp add: divide_strict_right_mono)
  then show ?thesis by simp
qed

lemma calc_stride_padded:
  "calc_stride (replicate n (Suc 0) @ shp) = replicate n 0 @ calc_stride shp"
  by (induction n) simp_all

lemma param_index_eq:
  "param_index inputs outputs k =
     dot (unravel k (shape (outputs ! 0)))
       (replicate (length (shape (outputs ! 0)) - length (shape (inputs ! 0))) 0
          @ calc_stride (shape (inputs ! 0)))"
  by (simp add: param_index_def FillShape_def Let_def calc_stride_padded)

lemma dot_unravel_column:
  assumes "i < 3" "j < 4"
  shows "dot (unravel (4 * i + j) [3, 4]) (calc_stride [3, 1]) = i"
  using assms by (simp add: dot_def unravel_def)

lemma ex_nth_iff_set:
  "length xs = N \<Longrightarrow> (\<exists>k<N. P (xs ! k)) \<longleftrightarrow> (\<exists>x\<in>set xs. P x)"
  by (metis in_set_conv_nth)

lemma ex_less_2: "(\<exists>k<2. P k) \<longleftrightarrow> P 0 \<or> P (Suc 0)"
  by (auto simp: less_Suc_eq numeral_2_eq_2)

lemma ex_less_3: "(\<exists>k<3. P k) \<longleftrightarrow> P 0 \<or> P (Suc 0) \<or> P 2"
  by (auto simp: less_Suc_eq numeral_3_eq_3 numeral_2_eq_2)

text \<open>
  The 32-bit product of 46341 with itself: the exact square 2147488281 is above
  \<open>2\<^sup>3\<^sup>1 - 1\<close> and wraps to a negative number.
\<close>

lemma IType_mult_int32_wraps: "IType_mult kInt32 46341 46341 = - 2147479015"
  by (simp add: IType_mult_def wrap_int_def)


text \<open>
  Where the product of the indexed parameter with itself is exact in the element type
  of the parameter tensor (a floating-point type, or an integer whose square does not
  wrap), the noise slot of the Pareto tensor path is \<open>-noise * (out+1) / a\<^sup>2\<close> with
  \<open>noise = -ln(u)\<close>, and this is the derivative of \<open>exp(-ln(u)/a) - 1\<close> with respect
  to \<open>a\<close>.
\<close>

lemma pareto_noise_slot_exact_product:
  assumes "outputs_ok outputs" and "a param = None"
    and "\<forall>k<Size (shape (inputs ! 0)). 0 < dptr (inputs ! 0) ! k"
    and "i < Size (shape (outputs ! 0))"
    and "0 < dptr (inputs ! 0) ! param_index inputs outputs i"
    and "IType_mult (type_flag (inputs ! 0))
           (dptr (inputs ! 0) ! param_index inputs outputs i)
           (dptr (inputs ! 0) ! param_index inputs outputs i) =
         dptr (inputs ! 0) ! param_index inputs outputs i
           * dptr (inputs ! 0) ! param_index inputs outputs i"
  shows "dptr (snd (NumpyParetoForward param ctx inputs outputs) ! 1) ! i =
           - (- ln (prnd ctx i))
             * (dptr (snd (NumpyParetoForward param ctx inputs outputs) ! 0) ! i + 1)
             / (dptr (inputs ! 0) ! param_index inputs outputs i)\<^sup>2 \<and>
         ((\<lambda>x. exp (- ln (prnd ctx i) / x) - 1) has_real_derivative
            dptr (snd (NumpyParetoForward param ctx inputs outputs) ! 1) ! i)
           (at (dptr (inputs ! 0) ! param_index inputs outputs i))"
proof -
  note r = NumpyParetoForward_tensor_ok [OF assms(1,2,3), of ctx]
  have n: "dptr (snd (NumpyParetoForward param ctx inputs outputs) ! 1) ! i =
      ln (prnd ctx i)
        * ((exp (- ln (prnd ctx i) / dptr (inputs ! 0) ! param_index inputs outputs i) - 1) + 1)
        / (dptr (inputs ! 0) ! param_index inputs outputs i
           * dptr (inputs ! 0) ! param_index inputs outputs i)"
    using assms(4) by (simp add: r assms(6))
  have out: "dptr (snd (NumpyParetoForward param ctx inputs outputs) ! 0) ! i =
      exp (- ln (prnd ctx i) / dptr (inputs ! 0) ! param_index inputs outputs i) - 1"
    using assms(4) by (simp add: r)
  have d: "((\<lambda>x. exp (- ln (prnd ctx i) / x) - 1) has_real_derivative
            dptr (snd (NumpyParetoForward param ctx inputs outputs) ! 1) ! i)
           (at (dptr (inputs ! 0) ! param_index inputs outputs i))"
    unfolding n using assms(5) by (intro pareto_transform_deriv) simp
  show ?thesis
    using d n out by (simp add: power2_eq_square)
qed

section \<open>The claims\<close>

text \<open>
  Claim C1. For every output element of a Pareto forward call with parameter \<open>a > 0\<close>
  and uniform draw \<open>u\<close> in \<open>(0,1)\<close> at that position, the output value equals
  \<open>exp(-ln(u)/a) - 1\<close>: on the scalar path with the scalar of the attributes, on the
  tensor path (where every element of the parameter tensor is positive) with the
  parameter element at the broadcast index. The call succeeds in both cases.
\<close>

theorem pareto_forward_output_value:
  assumes "outputs_ok outputs" and "i < Size (shape (outputs ! 0))"
    and "0 < prnd ctx i" and "prnd ctx i < 1"
  shows "(a param = Some av \<and> 0 < av \<longrightarrow>
            fst (NumpyParetoForward param ctx inputs outputs) = None \<and>
            dptr (snd (NumpyParetoForward param ctx inputs outputs) ! 0) ! i =
              exp (- ln (prnd ctx i) / av) - 1) \<and>
         (a param = None \<and> (\<forall>k<Size (shape (inputs ! 0)). 0 < dptr (inputs ! 0) ! k) \<longrightarrow>
            fst (NumpyParetoForward param ctx inputs outputs) = None \<and>
            dptr (snd (NumpyParetoForward param ctx inputs outputs) ! 0) ! i =
              exp (- ln (prnd ctx i) / dptr (inputs ! 0) ! param_index inputs outputs i) - 1)"
proof (intro conjI impI)
  assume h: "a param = Some av \<and> 0 < av"
  then have r: "NumpyParetoForward param ctx inputs outputs =
    (None, [(outputs ! 0)\<lparr>dptr := map (\<lambda>i. exp (- ln (prnd ctx i) / av) - 1)
                                     [0..<Size (shape (outputs ! 0))]\<rparr>,
            (outputs ! 1)\<lparr>dptr := map (prnd ctx) [0..<Size (shape (outputs ! 0))]\<rparr>])"
    using assms(1) by (simp add: NumpyParetoForward_scalar_ok)
  show "fst (NumpyParetoForward param ctx inputs outputs) = None"
    by (simp add: r)
  show "dptr (snd (NumpyParetoForward param ctx inputs outputs) ! 0) ! i =
          exp (- ln (prnd ctx i) / av) - 1"
    using assms(2) by (simp add: r)
next
  assume h: "a param = None \<and> (\<forall>k<Size (shape (inputs ! 0)). 0 < dptr (inputs ! 0) ! k)"
  note r = NumpyParetoForward_tensor_ok [OF assms(1) conjunct1 [OF h] conjunct2 [OF h], of ctx]
  show "fst (NumpyParetoForward param ctx inputs outputs) = None"
    by (simp add: r)
  show "dptr (snd (NumpyParetoForward param ctx inputs outputs) ! 0) ! i =
          exp (- ln (prnd ctx i) / dptr (inputs ! 0) ! param_index inputs outputs i) - 1"
    using assms(2) by (simp add: r)
qed

theorem pareto_forward_output_value_witness:
  "fst (NumpyParetoForward \<lparr>a = Some 2\<rparr> half_ctx [] two_outputs) = None \<and>
   dptr (snd (NumpyParetoForward \<lparr>a = Some 2\<rparr> half_ctx [] two_outputs) ! 0) ! 1 =
     exp (- ln (1 / 2) / 2) - 1 \<and>
   fst (NumpyParetoForward \<lparr>a = None\<rparr> half_ctx two_params two_outputs) = None \<and>
   dptr (snd (NumpyParetoForward \<lparr>a = None\<rparr> half_ctx two_params two_outputs) ! 0) ! 1 =
     exp (- ln (1 / 2) / 3) - 1"
  using pareto_forward_output_value
    [of two_outputs 1 half_ctx "\<lparr>a = Some 2\<rparr>" 2 "[]"]
    pareto_forward_output_value
    [of two_outputs 1 half_ctx "\<lparr>a = None\<rparr>" 0 two_params]
  by (simp add: outputs_ok_def two_outputs_def half_ctx_def two_params_def Size_def
      param_index_def FillShape_def dot_def unravel_def less_Suc_eq numeral_2_eq_2)

text \<open>
  Claim C2. For every output element of a Rayleigh forward call with parameter
  \<open>scale \<ge> 0\<close> and uniform draw \<open>u\<close> in \<open>(0,1)\<close> at that position, the output value
  equals \<open>scale * sqrt(-2 * ln(u))\<close>: on the scalar path with the scalar of the
  attributes, on the tensor path (where no element of the parameter tensor is
  negative) with the parameter element at the broadcast index. The call succeeds in
  both cases.
\<close>

theorem rayleigh_forward_output_value:
  assumes "outputs_ok outputs" and "i < Size (shape (outputs ! 0))"
    and "0 < prnd ctx i" and "prnd ctx i < 1"
  shows "(scale param = Some sc \<and> 0 \<le> sc \<longrightarrow>
            fst (NumpyRayleighForward param ctx inputs outputs) = None \<and>
            dptr (snd (NumpyRayleighForward param ctx inputs outputs) ! 0) ! i =
              sc * sqrt (- 2 * ln (prnd ctx i))) \<and>
         (scale param = None \<and> (\<forall>k<Size (shape (inputs ! 0)). 0 \<le> dptr (inputs ! 0) ! k) \<longrightarrow>
            fst (NumpyRayleighForward param ctx inputs outputs) = None \<and>
            dptr (snd (NumpyRayleighForward param ctx inputs outputs) ! 0) ! i =
              dptr (inputs ! 0) ! param_index inputs outputs i * sqrt (- 2 * ln (prnd ctx i)))"
proof (intro conjI impI)
  assume h: "scale param = Some sc \<and> 0 \<le> sc"
  note r = NumpyRayleighForward_scalar_ok [OF assms(1) conjunct1 [OF h] conjunct2 [OF h], of ctx inputs]
  show "fst (NumpyRayleighForward param ctx inputs outputs) = None"
    by (simp add: r)
  show "dptr (snd (NumpyRayleighForward param ctx inputs outputs) ! 0) ! i =
          sc * sqrt (- 2 * ln (prnd ctx i))"
    using assms(2) by (simp add: r)
next
  assume h: "scale param = None \<and> (\<forall>k<Size (shape (inputs ! 0)). 0 \<le> dptr (inputs ! 0) ! k)"
  note r = NumpyRayleighForward_tensor_ok [OF assms(1) conjunct1 [OF h] conjunct2 [OF h], of ctx]
  show "fst (NumpyRayleighForward param ctx inputs outputs) = None"
    by (simp add: r)
  show "dptr (snd (NumpyRayleighForward param ctx inputs outputs) ! 0) ! i =
          dptr (inputs ! 0) ! param_index inputs outputs i * sqrt (- 2 * ln (prnd ctx i))"
    using assms(2) by (simp add: r)
qed

theorem rayleigh_forward_output_value_witness:
  "fst (NumpyRayleighForward \<lparr>scale = Some 0\<rparr> half_ctx [] two_outputs) = None \<and>
   dptr (snd (NumpyRayleighForward \<lparr>scale = Some 0\<rparr> half_ctx [] two_outputs) ! 0) ! 1 =
     0 * sqrt (- 2 * ln (1 / 2)) \<and>
   fst (NumpyRayleighForward \<lparr>scale = None\<rparr> half_ctx two_params two_outputs) = None \<and>
   dptr (snd (NumpyRayleighForward \<lparr>scale = None\<rparr> half_ctx two_params two_outputs) ! 0) ! 1 =
     3 * sqrt (- 2 * ln (1 / 2))"
  using rayleigh_forward_output_value
    [of two_outputs 1 half_ctx "\<lparr>scale = Some 0\<rparr>" 0 "[]"]
    rayleigh_forward_output_value
    [of two_outputs 1 half_ctx "\<lparr>scale = None\<rparr>" 0 two_params]
  by (simp add: outputs_ok_def two_outputs_def half_ctx_def two_params_def Size_def
      param_index_def FillShape_def dot_def unravel_def less_Suc_eq numeral_2_eq_2)

text \<open>
  Claim C3: after the Pareto broadcast kernel the noise slot holds
  \<open>-noise * (out+1) / a\<^sup>2\<close> with \<open>noise = -ln(u)\<close>, the derivative of the output with
  respect to \<open>a\<close>, for every broadcast-indexed parameter \<open>a > 0\<close>. The kernel computes
  \<open>a * a\<close> in the element type of the parameter tensor. For a tensor of 32-bit integers
  with the legal element \<open>a = 46341\<close> and the draw \<open>1/2\<close> the call succeeds, the
  product wraps to \<open>-2147479015\<close>, and the slot holds
  \<open>-noise * (out+1) * (1 / -2147479015)\<close>, a positive number, whereas
  \<open>-noise * (out+1) / a\<^sup>2\<close> is negative.
\<close>

theorem pareto_int32_gradient_wraps:
  "fst (NumpyParetoForward \<lparr>a = None\<rparr> half_ctx wide_params two_outputs) = None \<and>
   dptr (snd (NumpyParetoForward \<lparr>a = None\<rparr> half_ctx wide_params two_outputs) ! 1) ! 0 =
     - (- ln (1 / 2))
       * (dptr (snd (NumpyParetoForward \<lparr>a = None\<rparr> half_ctx wide_params two_outputs) ! 0) ! 0 + 1)
       * (1 / (- 2147479015)) \<and>
   0 < dptr (snd (NumpyParetoForward \<lparr>a = None\<rparr> half_ctx wide_params two_outputs) ! 1) ! 0 \<and>
   - (- ln (1 / 2))
     * (dptr (snd (NumpyParetoForward \<lparr>a = None\<rparr> half_ctx wide_params two_outputs) ! 0) ! 0 + 1)
     / 46341\<^sup>2 < 0"
proof -
  have ok: "outputs_ok two_outputs"
    by (simp add: outputs_ok_def two_outputs_def Size_def)
  have legal: "\<forall>k<Size (shape (wide_params ! 0)). 0 < dptr (wide_params ! 0) ! k"
    by (simp add: wide_params_def Size_def less_Suc_eq numeral_2_eq_2)
  note r = NumpyParetoForward_tensor_ok [OF ok _ legal, of "\<lparr>a = None\<rparr>" half_ctx, simplified]
  have idx: "param_index wide_params two_outputs 0 = 0"
    by (simp add: param_index_def FillShape_def wide_params_def two_outputs_def dot_def
        unravel_def)
  have p: "dptr (wide_params ! 0) ! 0 = 46341" "type_flag (wide_params ! 0) = kInt32"
    by (simp_all add: wide_params_def)
  have u: "prnd half_ctx 0 = 1 / 2"
    by (simp add: half_ctx_def)
  have sz: "0 < Size (shape (two_outputs ! 0))"
    by (simp add: two_outputs_def Size_def)
  have out: "dptr (snd (NumpyParetoForward \<lparr>a = None\<rparr> half_ctx wide_params two_outputs) ! 0) ! 0
      = exp (- ln (1 / 2) / 46341) - 1"
    using sz by (simp add: r idx p u)
  have noise: "dptr (snd (NumpyParetoForward \<lparr>a = None\<rparr> half_ctx wide_params two_outputs) ! 1) ! 0
      = - (- ln (1 / 2)) * ((exp (- ln (1 / 2) / 46341) - 1) + 1) * (1 / (- 2147479015))"
    using sz by (simp add: r idx p u IType_mult_int32_wraps)
  have t: "ln (1 / 2 :: real) * exp (- ln (1 / 2) / 46341) < 0"
    by (rule mult_neg_pos) simp_all
  have pos: "0 < - (- ln (1 / 2 :: real)) * ((exp (- ln (1 / 2) / 46341) - 1) + 1)
      * (1 / (- 2147479015))"
  proof -
    have "0 < (ln (1 / 2 :: real) * exp (- ln (1 / 2) / 46341)) * (1 / (- 2147479015))"
      using t by (intro mult_neg_neg) simp_all
    then show ?thesis by simp
  qed
  have claim_neg: "- (- ln (1 / 2 :: real)) * ((exp (- ln (1 / 2) / 46341) - 1) + 1) / 46341\<^sup>2 < 0"
  proof -
    have "(ln (1 / 2 :: real) * exp (- ln (1 / 2) / 46341)) / 46341\<^sup>2 < 0"
      using t by (intro divide_neg_pos) simp_all
    then show ?thesis by simp
  qed
  have f: "fst (NumpyParetoForward \<lparr>a = None\<rparr> half_ctx wide_params two_outputs) = None"
    by (simp add: r)
  show ?thesis
    unfolding noise out using f pos claim_neg by simp
qed

text \<open>
  Claim C4. A forward call fails with a domain error if and only if the parameter
  violates the constraint of the distribution. Pareto fails iff the scalar, or some
  element of the parameter tensor, is \<open>\<le> 0\<close>; Rayleigh fails iff the scalar, or some
  element of the parameter tensor, is \<open>< 0\<close>, so \<open>scale = 0\<close> is accepted; a parameter
  whose elements are all legal never makes the call fail.
\<close>

theorem forward_fails_iff_domain_violation:
  "(a pparam = Some av \<longrightarrow>
      (fst (NumpyParetoForward pparam ctx inputs outputs) = Some (ValueError ''expect a > 0'')
         \<longleftrightarrow> av \<le> 0) \<and>
      (fst (NumpyParetoForward pparam ctx inputs outputs) = None \<longleftrightarrow> 0 < av)) \<and>
   (a pparam = None \<and> length (dptr (inputs ! 0)) = Size (shape (inputs ! 0)) \<longrightarrow>
      (fst (NumpyParetoForward pparam ctx inputs outputs) = Some (ValueError ''expect a > 0'')
         \<longleftrightarrow> (\<exists>x\<in>set (dptr (inputs ! 0)). x \<le> 0)) \<and>
      (fst (NumpyParetoForward pparam ctx inputs outputs) = None
         \<longleftrightarrow> (\<forall>x\<in>set (dptr (inputs ! 0)). 0 < x))) \<and>
   (scale rparam = Some sc \<longrightarrow>
      (fst (NumpyRayleighForward rparam ctx inputs outputs)
         = Some (ValueError ''expect scale >= 0'') \<longleftrightarrow> sc < 0) \<and>
      (fst (NumpyRayleighForward rparam ctx inputs outputs) = None \<longleftrightarrow> 0 \<le> sc)) \<and>
   (scale rparam = None \<and> length (dptr (inputs ! 0)) = Size (shape (inputs ! 0)) \<longrightarrow>
      (fst (NumpyRayleighForward rparam ctx inputs outputs)
         = Some (ValueError ''expect scale >= 0'') \<longleftrightarrow> (\<exists>x\<in>set (dptr (inputs ! 0)). x < 0)) \<and>
      (fst (NumpyRayleighForward rparam ctx inputs outputs) = None
         \<longleftrightarrow> (\<forall>x\<in>set (dptr (inputs ! 0)). 0 \<le> x)))"
proof -
  have pe: "fst (NumpyParetoForward pparam ctx inputs outputs) \<noteq> None \<longleftrightarrow>
      fst (NumpyParetoForward pparam ctx inputs outputs) = Some (ValueError ''expect a > 0'')"
    using NumpyParetoForward_fail [of pparam ctx inputs outputs] by auto
  have re: "fst (NumpyRayleighForward rparam ctx inputs outputs) \<noteq> None \<longleftrightarrow>
      fst (NumpyRayleighForward rparam ctx inputs outputs) = Some (ValueError ''expect scale >= 0'')"
    using NumpyRayleighForward_fail [of rparam ctx inputs outputs] by auto
  have ps: "a pparam = Some av \<Longrightarrow>
      (fst (NumpyParetoForward pparam ctx inputs outputs) \<noteq> None \<longleftrightarrow> av \<le> 0)"
    by (rule NumpyParetoForward_scalar_fails_iff)
  have rs: "scale rparam = Some sc \<Longrightarrow>
      (fst (NumpyRayleighForward rparam ctx inputs outputs) \<noteq> None \<longleftrightarrow> sc < 0)"
    by (rule NumpyRayleighForward_scalar_fails_iff)
  have pt: "a pparam = None \<Longrightarrow> length (dptr (inputs ! 0)) = Size (shape (inputs ! 0)) \<Longrightarrow>
      (fst (NumpyParetoForward pparam ctx inputs outputs) \<noteq> None \<longleftrightarrow>
         (\<exists>x\<in>set (dptr (inputs ! 0)). x \<le> 0))"
    by (simp only: NumpyParetoForward_tensor_fails_iff ex_nth_iff_set [where P = "\<lambda>x. x \<le> 0"])
  have rt: "scale rparam = None \<Longrightarrow> length (dptr (inputs ! 0)) = Size (shape (inputs ! 0)) \<Longrightarrow>
      (fst (NumpyRayleighForward rparam ctx inputs outputs) \<noteq> None \<longleftrightarrow>
         (\<exists>x\<in>set (dptr (inputs ! 0)). x < 0))"
    by (simp only: NumpyRayleighForward_tensor_fails_iff ex_nth_iff_set [where P = "\<lambda>x. x < 0"])
  show ?thesis
  proof (intro conjI impI)
    assume h: "a pparam = Some av"
    show "fst (NumpyParetoForward pparam ctx inputs outputs) = Some (ValueError ''expect a > 0'')
         \<longleftrightarrow> av \<le> 0"
      using ps [OF h] pe by simp
    show "fst (NumpyParetoForward pparam ctx inputs outputs) = None \<longleftrightarrow> 0 < av"
      using ps [OF h] by auto
  next
    assume h: "a pparam = None \<and> length (dptr (inputs ! 0)) = Size (shape (inputs ! 0))"
    show "fst (NumpyParetoForward pparam ctx inputs outputs) = Some (ValueError ''expect a > 0'')
         \<longleftrightarrow> (\<exists>x\<in>set (dptr (inputs ! 0)). x \<le> 0)"
      using pt h pe by simp
    show "fst (NumpyParetoForward pparam ctx inputs outputs) = None
         \<longleftrightarrow> (\<forall>x\<in>set (dptr (inputs ! 0)). 0 < x)"
      using pt h by (auto simp: not_le)
  next
    assume h: "scale rparam = Some sc"
    show "fst (NumpyRayleighForward rparam ctx inputs outputs)
         = Some (ValueError ''expect scale >= 0'') \<longleftrightarrow> sc < 0"
      using rs [OF h] re by simp
    show "fst (NumpyRayleighForward rparam ctx inputs outputs) = None \<longleftrightarrow> 0 \<le> sc"
      using rs [OF h] by auto
  next
    assume h: "scale rparam = None \<and> length (dptr (inputs ! 0)) = Size (shape (inputs ! 0))"
    show "fst (NumpyRayleighForward rparam ctx inputs outputs)
         = Some (ValueError ''expect scale >= 0'') \<longleftrightarrow> (\<exists>x\<in>set (dptr (inputs ! 0)). x < 0)"
      using rt h re by simp
    show "fst (NumpyRayleighForward rparam ctx inputs outputs) = None
         \<longleftrightarrow> (\<forall>x\<in>set (dptr (inputs ! 0)). 0 \<le> x)"
      using rt h by (auto simp: not_less)
  qed
qed

theorem forward_fails_iff_domain_violation_witness:
  "fst (NumpyParetoForward \<lparr>a = Some 0\<rparr> half_ctx [] two_outputs)
     = Some (ValueError ''expect a > 0'') \<and>
   fst (NumpyParetoForward \<lparr>a = None\<rparr> half_ctx two_params two_outputs) = None \<and>
   fst (NumpyParetoForward \<lparr>a = None\<rparr> half_ctx zero_params two_outputs)
     = Some (ValueError ''expect a > 0'') \<and>
   fst (NumpyRayleighForward \<lparr>scale = Some 0\<rparr> half_ctx [] two_outputs) = None \<and>
   fst (NumpyRayleighForward \<lparr>scale = None\<rparr> half_ctx zero_params two_outputs) = None \<and>
   fst (NumpyRayleighForward \<lparr>scale = None\<rparr> half_ctx bad_params two_outputs)
     = Some (ValueError ''expect scale >= 0'')"
  using forward_fails_iff_domain_violation
      [of "\<lparr>a = Some 0\<rparr>" 0 half_ctx "[]" two_outputs "\<lparr>scale = Some 0\<rparr>" 0]
    forward_fails_iff_domain_violation
      [of "\<lparr>a = None\<rparr>" 0 half_ctx two_params two_outputs "\<lparr>scale = None\<rparr>" 0]
    forward_fails_iff_domain_violation
      [of "\<lparr>a = None\<rparr>" 0 half_ctx zero_params two_outputs "\<lparr>scale = None\<rparr>" 0]
    forward_fails_iff_domain_violation
      [of "\<lparr>a = None\<rparr>" 0 half_ctx bad_params two_outputs "\<lparr>scale = None\<rparr>" 0]
  by (simp add: two_params_def zero_params_def bad_params_def Size_def)

text \<open>
  Claim C5. On the tensor path of both distributions the parameter element used for
  the output index \<open>k\<close> is found by unraveling \<open>k\<close> against the output shape and taking
  the dot product of the coordinate with the strides of the parameter shape, padded
  with zeros on the left up to the rank of the output. In particular, for the
  parameter shape \<open>(3,1)\<close> and the output shape \<open>(3,4)\<close>, the output element \<open>(i,j)\<close>,
  at offset \<open>4 * i + j\<close>, uses the parameter element \<open>(i,0)\<close>, at offset \<open>i\<close>, for
  every \<open>j\<close>.
\<close>

theorem broadcast_parameter_index:
  assumes "outputs_ok outputs"
  shows "(a pparam = None \<and> fst (NumpyParetoForward pparam ctx inputs outputs) = None \<longrightarrow>
            (k < Size (shape (outputs ! 0)) \<longrightarrow>
               dptr (snd (NumpyParetoForward pparam ctx inputs outputs) ! 0) ! k =
                 exp (- ln (prnd ctx k) /
                      dptr (inputs ! 0) !
                        dot (unravel k (shape (outputs ! 0)))
                          (replicate (length (shape (outputs ! 0)) - length (shape (inputs ! 0))) 0
                             @ calc_stride (shape (inputs ! 0)))) - 1) \<and>
            (shape (inputs ! 0) = [3, 1] \<and> shape (outputs ! 0) = [3, 4] \<and> i < 3 \<and> j < 4 \<longrightarrow>
               dptr (snd (NumpyParetoForward pparam ctx inputs outputs) ! 0) ! (4 * i + j) =
                 exp (- ln (prnd ctx (4 * i + j)) / dptr (inputs ! 0) ! i) - 1)) \<and>
         (scale rparam = None \<and> fst (NumpyRayleighForward rparam ctx inputs outputs) = None \<longrightarrow>
            (k < Size (shape (outputs ! 0)) \<longrightarrow>
               dptr (snd (NumpyRayleighForward rparam ctx inputs outputs) ! 0) ! k =
                 dptr (inputs ! 0) !
                   dot (unravel k (shape (outputs ! 0)))
                     (replicate (length (shape (outputs ! 0)) - length (shape (inputs ! 0))) 0
                        @ calc_stride (shape (inputs ! 0)))
                 * sqrt (- 2 * ln (prnd ctx k))) \<and>
            (shape (inputs ! 0) = [3, 1] \<and> shape (outputs ! 0) = [3, 4] \<and> i < 3 \<and> j < 4 \<longrightarrow>
               dptr (snd (NumpyRayleighForward rparam ctx inputs outputs) ! 0) ! (4 * i + j) =
                 dptr (inputs ! 0) ! i * sqrt (- 2 * ln (prnd ctx (4 * i + j)))))"
proof -
  have idx: "param_index inputs outputs (4 * i + j) = i"
    and n: "4 * i + j < Size (shape (outputs ! 0))"
    if "shape (inputs ! 0) = [3, 1] \<and> shape (outputs ! 0) = [3, 4] \<and> i < 3 \<and> j < 4"
    using that dot_unravel_column [of i j] by (simp_all add: param_index_eq Size_def)
  show ?thesis
  proof (intro conjI impI)
    assume h: "a pparam = None \<and> fst (NumpyParetoForward pparam ctx inputs outputs) = None"
    note p = NumpyParetoForward_tensor_ok
      [OF assms conjunct1 [OF h]
          NumpyParetoForward_tensor_succeeds [OF conjunct1 [OF h] conjunct2 [OF h]], of ctx]
    have gen: "dptr (snd (NumpyParetoForward pparam ctx inputs outputs) ! 0) ! n =
          exp (- ln (prnd ctx n) / dptr (inputs ! 0) ! param_index inputs outputs n) - 1"
      if "n < Size (shape (outputs ! 0))" for n
      using that by (simp add: p)
    {
      assume "k < Size (shape (outputs ! 0))"
      from gen [OF this]
      show "dptr (snd (NumpyParetoForward pparam ctx inputs outputs) ! 0) ! k =
                 exp (- ln (prnd ctx k) /
                      dptr (inputs ! 0) !
                        dot (unravel k (shape (outputs ! 0)))
                          (replicate (length (shape (outputs ! 0)) - length (shape (inputs ! 0))) 0
                             @ calc_stride (shape (inputs ! 0)))) - 1"
        by (simp only: param_index_eq)
    }
    {
      assume c: "shape (inputs ! 0) = [3, 1] \<and> shape (outputs ! 0) = [3, 4] \<and> i < 3 \<and> j < 4"
      from gen [OF n [OF c]]
      show "dptr (snd (NumpyParetoForward pparam ctx inputs outputs) ! 0) ! (4 * i + j) =
                 exp (- ln (prnd ctx (4 * i + j)) / dptr (inputs ! 0) ! i) - 1"
        by (simp only: idx [OF c])
    }
  next
    assume h: "scale rparam = None \<and> fst (NumpyRayleighForward rparam ctx inputs outputs) = None"
    note r = NumpyRayleighForward_tensor_ok
      [OF assms conjunct1 [OF h]
          NumpyRayleighForward_tensor_succeeds [OF conjunct1 [OF h] conjunct2 [OF h]], of ctx]
    have gen: "dptr (snd (NumpyRayleighForward rparam ctx inputs outputs) ! 0) ! n =
          dptr (inputs ! 0) ! param_index inputs outputs n * sqrt (- 2 * ln (prnd ctx n))"
      if "n < Size (shape (outputs ! 0))" for n
      using that by (simp add: r)
    {
      assume "k < Size (shape (outputs ! 0))"
      from gen [OF this]
      show "dptr (snd (NumpyRayleighForward rparam ctx inputs outputs) ! 0) ! k =
                 dptr (inputs ! 0) !
                   dot (unravel k (shape (outputs ! 0)))
                     (replicate (length (shape (outputs ! 0)) - length (shape (inputs ! 0))) 0
                        @ calc_stride (shape (inputs ! 0)))
                 * sqrt (- 2 * ln (prnd ctx k))"
        by (simp only: param_index_eq)
    }
    {
      assume c: "shape (inputs ! 0) = [3, 1] \<and> shape (outputs ! 0) = [3, 4] \<and> i < 3 \<and> j < 4"
      from gen [OF n [OF c]]
      show "dptr (snd (NumpyRayleighForward rparam ctx inputs outputs) ! 0) ! (4 * i + j) =
                 dptr (inputs ! 0) ! i * sqrt (- 2 * ln (prnd ctx (4 * i + j)))"
        by (simp only: idx [OF c])
    }
  qed
qed

theorem broadcast_parameter_index_witness:
  "dptr (snd (NumpyParetoForward \<lparr>a = None\<rparr> half_ctx column_params matrix_outputs) ! 0) ! 6 =
     exp (- ln (1 / 2) / 2) - 1 \<and>
   dptr (snd (NumpyRayleighForward \<lparr>scale = None\<rparr> half_ctx column_params matrix_outputs) ! 0) ! 6 =
     2 * sqrt (- 2 * ln (1 / 2)) \<and>
   dptr (snd (NumpyParetoForward \<lparr>a = None\<rparr> half_ctx column_params matrix_outputs) ! 0) ! 11 =
     exp (- ln (1 / 2) / 3) - 1 \<and>
   dptr (snd (NumpyRayleighForward \<lparr>scale = None\<rparr> half_ctx column_params matrix_outputs) ! 0) ! 11 =
     3 * sqrt (- 2 * ln (1 / 2))"
  using broadcast_parameter_index
      [where outputs = matrix_outputs and pparam = "\<lparr>a = None\<rparr>" and ctx = half_ctx
         and inputs = column_params and rparam = "\<lparr>scale = None\<rparr>"
         and k = 6 and i = 1 and j = 2]
    broadcast_parameter_index
      [where outputs = matrix_outputs and pparam = "\<lparr>a = None\<rparr>" and ctx = half_ctx
         and inputs = column_params and rparam = "\<lparr>scale = None\<rparr>"
         and k = 11 and i = 2 and j = 3]
    NumpyParetoForward_tensor_fails_iff [of "\<lparr>a = None\<rparr>" half_ctx column_params matrix_outputs]
    NumpyRayleighForward_tensor_fails_iff
      [of "\<lparr>scale = None\<rparr>" half_ctx column_params matrix_outputs]
  by (simp add: outputs_ok_def matrix_outputs_def column_params_def half_ctx_def Size_def
      ex_less_3 dot_def unravel_def)




text \<open>
  Claim C7. A forward call of either distribution that fails the domain check, on
  the scalar or on the tensor path, leaves the output blob \<^verbatim>\<open>outputs[0]\<close> as it
  was.
\<close>

theorem forward_failure_leaves_output:
  "(fst (NumpyParetoForward pparam ctx inputs outputs) \<noteq> None \<longrightarrow>
      snd (NumpyParetoForward pparam ctx inputs outputs) ! 0 = outputs ! 0) \<and>
   (fst (NumpyRayleighForward rparam ctx inputs outputs) \<noteq> None \<longrightarrow>
      snd (NumpyRayleighForward rparam ctx inputs outputs) ! 0 = outputs ! 0)"
proof (intro conjI impI)
  assume "fst (NumpyParetoForward pparam ctx inputs outputs) \<noteq> None"
  then show "snd (NumpyParetoForward pparam ctx inputs outputs) ! 0 = outputs ! 0"
    by (simp add: NumpyParetoForward_fail set_dptr_def)
next
  assume "fst (NumpyRayleighForward rparam ctx inputs outputs) \<noteq> None"
  then show "snd (NumpyRayleighForward rparam ctx inputs outputs) ! 0 = outputs ! 0"
    by (simp add: NumpyRayleighForward_fail set_dptr_def)
qed

theorem forward_failure_leaves_output_witness:
  "fst (NumpyParetoForward \<lparr>a = Some 0\<rparr> half_ctx [] two_outputs) \<noteq> None \<and>
   snd (NumpyParetoForward \<lparr>a = Some 0\<rparr> half_ctx [] two_outputs) ! 0 = two_outputs ! 0 \<and>
   fst (NumpyRayleighForward \<lparr>scale = Some (- 1)\<rparr> half_ctx [] two_outputs) \<noteq> None \<and>
   snd (NumpyRayleighForward \<lparr>scale = Some (- 1)\<rparr> half_ctx [] two_outputs) ! 0
     = two_outputs ! 0 \<and>
   fst (NumpyParetoForward \<lparr>a = None\<rparr> half_ctx bad_params two_outputs) \<noteq> None \<and>
   snd (NumpyParetoForward \<lparr>a = None\<rparr> half_ctx bad_params two_outputs) ! 0 = two_outputs ! 0 \<and>
   fst (NumpyRayleighForward \<lparr>scale = None\<rparr> half_ctx bad_params two_outputs) \<noteq> None \<and>
   snd (NumpyRayleighForward \<lparr>scale = None\<rparr> half_ctx bad_params two_outputs) ! 0
     = two_outputs ! 0"
  using forward_failure_leaves_output
      [of "\<lparr>a = Some 0\<rparr>" half_ctx "[]" two_outputs "\<lparr>scale = Some (- 1)\<rparr>"]
    forward_failure_leaves_output
      [of "\<lparr>a = None\<rparr>" half_ctx bad_params two_outputs "\<lparr>scale = None\<rparr>"]
    NumpyParetoForward_scalar_fails_iff [of "\<lparr>a = Some 0\<rparr>" 0 half_ctx "[]" two_outputs]
    NumpyRayleighForward_scalar_fails_iff
      [of "\<lparr>scale = Some (- 1)\<rparr>" "- 1" half_ctx "[]" two_outputs]
    NumpyParetoForward_tensor_fails_iff [of "\<lparr>a = None\<rparr>" half_ctx bad_params two_outputs]
    NumpyRayleighForward_tensor_fails_iff
      [of "\<lparr>scale = None\<rparr>" half_ctx bad_params two_outputs]
  by (simp add: bad_params_def Size_def ex_less_2)

text \<open>
  Claim C8. For both distributions the backward function writes nothing when the
  incoming gradient has no element or when there is no output (the scalar path); it
  hands over to the shared reduction only when there are exactly five inputs, and
  then with the two shapes that \<^verbatim>\<open>FillShape\<close> returns for the shape of the gradient
  output and the shape of the incoming gradient.
\<close>

theorem backward_writes_only_on_tensor_path:
  "(Size (shape (inputs ! 0)) = 0 \<or> length outputs = 0 \<or> length inputs \<noteq> 5 \<longrightarrow>
      ParetoReparamBackward impl inputs reqs outputs = outputs \<and>
      RayleighReparamBackward impl inputs reqs outputs = outputs) \<and>
   (Size (shape (inputs ! 0)) \<noteq> 0 \<and> length outputs \<noteq> 0 \<and> length inputs = 5 \<longrightarrow>
      ParetoReparamBackward impl inputs reqs outputs =
        impl inputs reqs outputs
          (fst (snd (FillShape (shape (outputs ! 0)) (shape (outputs ! 0)) (shape (inputs ! 0)))))
          (snd (snd (snd
             (FillShape (shape (outputs ! 0)) (shape (outputs ! 0)) (shape (inputs ! 0)))))) \<and>
      RayleighReparamBackward impl inputs reqs outputs =
        impl inputs reqs outputs
          (fst (snd (FillShape (shape (outputs ! 0)) (shape (outputs ! 0)) (shape (inputs ! 0)))))
          (snd (snd (snd
             (FillShape (shape (outputs ! 0)) (shape (outputs ! 0)) (shape (inputs ! 0)))))))"
proof (intro conjI impI)
  assume noop: "Size (shape (inputs ! 0)) = 0 \<or> length outputs = 0 \<or> length inputs \<noteq> 5"
  then show "ParetoReparamBackward impl inputs reqs outputs = outputs"
    by (auto simp: ParetoReparamBackward_def)
  from noop show "RayleighReparamBackward impl inputs reqs outputs = outputs"
    by (auto simp: RayleighReparamBackward_def)
next
  assume tensor: "Size (shape (inputs ! 0)) \<noteq> 0 \<and> length outputs \<noteq> 0 \<and> length inputs = 5"
  then show "ParetoReparamBackward impl inputs reqs outputs =
        impl inputs reqs outputs
          (fst (snd (FillShape (shape (outputs ! 0)) (shape (outputs ! 0)) (shape (inputs ! 0)))))
          (snd (snd (snd
             (FillShape (shape (outputs ! 0)) (shape (outputs ! 0)) (shape (inputs ! 0))))))"
    by (simp add: ParetoReparamBackward_def split: prod.splits)
  from tensor show "RayleighReparamBackward impl inputs reqs outputs =
        impl inputs reqs outputs
          (fst (snd (FillShape (shape (outputs ! 0)) (shape (outputs ! 0)) (shape (inputs ! 0)))))
          (snd (snd (snd
             (FillShape (shape (outputs ! 0)) (shape (outputs ! 0)) (shape (inputs ! 0))))))"
    by (simp add: RayleighReparamBackward_def split: prod.splits)
qed

theorem backward_writes_only_on_tensor_path_witness:
  "ParetoReparamBackward erasing_impl empty_grad [] two_params = two_params \<and>
   RayleighReparamBackward erasing_impl empty_grad [] two_params = two_params \<and>
   ParetoReparamBackward erasing_impl two_grads [] two_params = two_params \<and>
   RayleighReparamBackward erasing_impl two_grads [] two_params = two_params \<and>
   ParetoReparamBackward erasing_impl (two_params @ two_grads) [] [] = [] \<and>
   ParetoReparamBackward erasing_impl (two_params @ two_grads) [] two_params =
     erasing_impl (two_params @ two_grads) [] two_params [2] [2] \<and>
   RayleighReparamBackward erasing_impl (two_params @ two_grads) [] two_params =
     erasing_impl (two_params @ two_grads) [] two_params [2] [2]"
  using backward_writes_only_on_tensor_path [of empty_grad two_params erasing_impl "[]"]
    backward_writes_only_on_tensor_path [of two_grads two_params erasing_impl "[]"]
    backward_writes_only_on_tensor_path [of "two_params @ two_grads" "[]" erasing_impl "[]"]
    backward_writes_only_on_tensor_path [of "two_params @ two_grads" two_params erasing_impl "[]"]
  by (simp add: empty_grad_def two_grads_def two_params_def Size_def FillShape_def)

text \<open>
  Claim C9. For a fixed Pareto parameter \<open>a > 0\<close> the forward transform is strictly
  decreasing in the uniform draw: of two scalar-path calls whose draws at a position
  are \<open>u1 < u2\<close> in \<open>(0,1)\<close>, the first leaves \<open>exp(-ln(u1)/a) - 1\<close>, the second
  \<open>exp(-ln(u2)/a) - 1\<close>, and the first value is the larger.
\<close>

theorem pareto_scalar_forward_decreasing:
  assumes "outputs_ok outputs" and "a param = Some av" and "0 < av"
    and "i < Size (shape (outputs ! 0))"
    and "0 < prnd ctx1 i" and "prnd ctx1 i < prnd ctx2 i" and "prnd ctx2 i < 1"
  shows "dptr (snd (NumpyParetoForward param ctx1 inputs outputs) ! 0) ! i
           = exp (- ln (prnd ctx1 i) / av) - 1 \<and>
         dptr (snd (NumpyParetoForward param ctx2 inputs outputs) ! 0) ! i
           = exp (- ln (prnd ctx2 i) / av) - 1 \<and>
         dptr (snd (NumpyParetoForward param ctx2 inputs outputs) ! 0) ! i
           < dptr (snd (NumpyParetoForward param ctx1 inputs outputs) ! 0) ! i"
proof -
  have o1: "dptr (snd (NumpyParetoForward param ctx1 inputs outputs) ! 0) ! i
      = exp (- ln (prnd ctx1 i) / av) - 1"
    using assms(4) by (simp add: NumpyParetoForward_scalar_ok [OF assms(1,2,3)])
  have o2: "dptr (snd (NumpyParetoForward param ctx2 inputs outputs) ! 0) ! i
      = exp (- ln (prnd ctx2 i) / av) - 1"
    using assms(4) by (simp add: NumpyParetoForward_scalar_ok [OF assms(1,2,3)])
  have "exp (- ln (prnd ctx2 i) / av) - 1 < exp (- ln (prnd ctx1 i) / av) - 1"
    using assms(3,5,6) by (rule pareto_transform_strict_antimono)
  with o1 o2 show ?thesis by simp
qed

theorem pareto_scalar_forward_decreasing_witness:
  "dptr (snd (NumpyParetoForward \<lparr>a = Some 2\<rparr> quarter_ctx [] two_outputs) ! 0) ! 1
     = exp (- ln (1 / 4) / 2) - 1 \<and>
   dptr (snd (NumpyParetoForward \<lparr>a = Some 2\<rparr> half_ctx [] two_outputs) ! 0) ! 1
     = exp (- ln (1 / 2) / 2) - 1 \<and>
   dptr (snd (NumpyParetoForward \<lparr>a = Some 2\<rparr> half_ctx [] two_outputs) ! 0) ! 1
     < dptr (snd (NumpyParetoForward \<lparr>a = Some 2\<rparr> quarter_ctx [] two_outputs) ! 0) ! 1"
  using pareto_scalar_forward_decreasing
    [of two_outputs "\<lparr>a = Some 2\<rparr>" 2 1 quarter_ctx half_ctx "[]"]
  by (simp add: outputs_ok_def two_outputs_def half_ctx_def quarter_ctx_def Size_def)

text \<open>
  Claim C10. On the tensor path of both distributions the noise blob is filled with
  the draws before the legality check: a call that fails the check leaves the draws
  in the noise buffer and the output blob untouched.
\<close>

theorem tensor_failure_noise_already_drawn:
  assumes "length outputs = 2"
  shows "(a pparam = None \<and> fst (NumpyParetoForward pparam ctx inputs outputs) \<noteq> None \<longrightarrow>
            dptr (snd (NumpyParetoForward pparam ctx inputs outputs) ! 1)
              = map (prnd ctx) [0..<length (dptr (outputs ! 1))] \<and>
            snd (NumpyParetoForward pparam ctx inputs outputs) ! 0 = outputs ! 0) \<and>
         (scale rparam = None \<and> fst (NumpyRayleighForward rparam ctx inputs outputs) \<noteq> None \<longrightarrow>
            dptr (snd (NumpyRayleighForward rparam ctx inputs outputs) ! 1)
              = map (prnd ctx) [0..<length (dptr (outputs ! 1))] \<and>
            snd (NumpyRayleighForward rparam ctx inputs outputs) ! 0 = outputs ! 0)"
  using assms
  by (auto simp: NumpyParetoForward_fail NumpyRayleighForward_fail set_dptr_def)

theorem tensor_failure_noise_already_drawn_witness:
  "fst (NumpyParetoForward \<lparr>a = None\<rparr> half_ctx zero_params two_outputs) \<noteq> None \<and>
   dptr (two_outputs ! 1) = [0, 0] \<and>
   dptr (snd (NumpyParetoForward \<lparr>a = None\<rparr> half_ctx zero_params two_outputs) ! 1)
     = [1 / 2, 1 / 2] \<and>
   snd (NumpyParetoForward \<lparr>a = None\<rparr> half_ctx zero_params two_outputs) ! 0 = two_outputs ! 0 \<and>
   fst (NumpyRayleighForward \<lparr>scale = None\<rparr> half_ctx bad_params two_outputs) \<noteq> None \<and>
   dptr (snd (NumpyRayleighForward \<lparr>scale = None\<rparr> half_ctx bad_params two_outputs) ! 1)
     = [1 / 2, 1 / 2] \<and>
   snd (NumpyRayleighForward \<lparr>scale = None\<rparr> half_ctx bad_params two_outputs) ! 0
     = two_outputs ! 0"
  using tensor_failure_noise_already_drawn
      [of two_outputs "\<lparr>a = None\<rparr>" half_ctx zero_params "\<lparr>scale = None\<rparr>"]
    tensor_failure_noise_already_drawn
      [of two_outputs "\<lparr>a = None\<rparr>" half_ctx bad_params "\<lparr>scale = None\<rparr>"]
    NumpyParetoForward_tensor_fails_iff [of "\<lparr>a = None\<rparr>" half_ctx zero_params two_outputs]
    NumpyRayleighForward_tensor_fails_iff
      [of "\<lparr>scale = None\<rparr>" half_ctx bad_params two_outputs]
  by (simp add: bad_params_def zero_params_def two_outputs_def half_ctx_def Size_def
      upt_conv_Cons ex_less_2)

end
